theory Spec2Isabelle
  imports Complex_Main
begin

section \<open>Data model (types/index.ts)\<close>

text \<open>
  Every TypeScript interface is a record. Several interfaces share field names
  (\<open>id\<close>, \<open>title\<close>, \<open>created_at\<close>, ...), so a field \<open>f\<close> of an interface
  is written \<open>f_T\<close> with a short tag \<open>T\<close> of the interface. An optional field
  (\<open>f?: t\<close>) has type \<open>t option\<close>; \<open>None\<close> is \<open>undefined\<close>. A \<open>number\<close> that
  counts is an \<open>int\<close>, one that measures is a \<open>real\<close>; none of them is
  computed with.
\<close>

record User =
  id_U :: string
  email_U :: string
  username_U :: string
  full_name_U :: "string option"
  institution_U :: "string option"
  is_active_U :: bool
  created_at_U :: string

record UserLogin =
  email_UL :: string
  password_UL :: string

record AuthTokens =
  access_token_AT :: string
  token_type_AT :: string

record Chat =
  id_C :: string
  user_id_C :: string
  title_C :: string
  created_at_C :: string
  updated_at_C :: string
  message_count_C :: "int option"

record Source =
  document_id_S :: string
  document_name_S :: string
  chunk_text_S :: string
  similarity_score_S :: real
  page_number_S :: "int option"

datatype Role = RoleUser | RoleAssistant | RoleSystem

record Metadata =
  sources_MD :: "Source list option"

record Message =
  id_M :: string
  chat_id_M :: string
  role_M :: Role
  content_M :: string
  metadata_M :: "Metadata option"
  created_at_M :: string

text \<open>\<open>ChatWithMessages extends Chat\<close>: a record extension.\<close>

record ChatWithMessages = Chat +
  messages_CW :: "Message list"

record Document =
  id_D :: string
  user_id_D :: string
  filename_D :: string
  original_filename_D :: string
  file_type_D :: string
  file_size_D :: int
  title_D :: "string option"
  description_D :: "string option"
  category_D :: "string option"
  processed_D :: bool
  processing_error_D :: "string option"
  created_at_D :: string
  updated_at_D :: string

record RAGQuery =
  query_Q :: string
  chat_id_Q :: "string option"
  document_ids_Q :: "string list option"
  top_k_Q :: "int option"

record RAGResponse =
  answer_R :: string
  sources_R :: "Source list"
  message_id_R :: string
  processing_time_R :: real

record ChatListResponse =
  chats_CL :: "Chat list"
  total_CL :: int

record DocumentListResponse =
  documents_DL :: "Document list"
  total_DL :: int


section \<open>The API gateway (services/api.ts)\<close>

subsection \<open>JavaScript values\<close>

text \<open>
  The body of a response is whatever JSON the server sent. The cast
  \<open>error as AxiosError<{ detail: string }>\<close> in \<open>handleError\<close> is erased when the
  program runs, so \<open>detail\<close> can be any value: a string, but also an array (a
  validation report), a number, or nothing at all. An object is the list of its
  properties, each key once.
\<close>

datatype js =
    JUndefined
  | JNull
  | JBool bool
  | JNum real
  | JStr string
  | JArr "js list"
  | JObj "(string \<times> js) list"

text \<open>Truthiness, as \<open>||\<close> and \<open>!!\<close> see it.\<close>

fun js_truthy :: "js \<Rightarrow> bool" where
  "js_truthy JUndefined = False"
| "js_truthy JNull = False"
| "js_truthy (JBool b) = b"
| "js_truthy (JNum n) = (n \<noteq> 0)"
| "js_truthy (JStr s) = (s \<noteq> [])"
| "js_truthy (JArr xs) = True"
| "js_truthy (JObj kvs) = True"

text \<open>\<open>x || d\<close>\<close>

definition js_or :: "js \<Rightarrow> js \<Rightarrow> js" where
  "js_or x d = (if js_truthy x then x else d)"

text \<open>
  \<open>data?.detail\<close>: the property of an object that has it; \<open>undefined\<close> for
  \<open>null\<close>, \<open>undefined\<close>, an object without it, and every value that is not an
  object (a string, a number, a boolean and an array have no \<open>detail\<close>).
\<close>

fun detail_of :: "js \<Rightarrow> js" where
  "detail_of (JObj kvs) = (case map_of kvs ''detail'' of Some v \<Rightarrow> v | None \<Rightarrow> JUndefined)"
| "detail_of v = JUndefined"

text \<open>
  The same two operations on a string that may be \<open>null\<close> or \<open>undefined\<close> (the
  stored token, an optional title).
\<close>

fun truthy :: "string option \<Rightarrow> bool" where
  "truthy None = False"
| "truthy (Some s) = (s \<noteq> [])"

definition or_else :: "string option \<Rightarrow> string \<Rightarrow> string" where
  "or_else x d = (if truthy x then the x else d)"

subsection \<open>Thrown values\<close>

text \<open>
  What a rejected gateway call throws is a \<open>thrown\<close>: a transport error
  (\<open>AxiosError\<close>, whose \<open>response\<close> is absent when no answer arrived) or some
  other error with its message (\<open>new Error('No active chat')\<close>).

  \<open>handleError\<close> takes an \<open>unknown\<close>. Besides the values above that is any
  value at all, and reading a property of an unknown object can run an accessor
  that throws: \<open>Trap m\<close> is an object whose \<open>isAxiosError\<close> accessor throws an
  error with message \<open>m\<close>.
\<close>

record AxiosResponse =
  status_AR :: int
  data_AR :: js

datatype thrown = AxiosError "AxiosResponse option" | JsError string

datatype unknown = Caught thrown | Trap string

text \<open>\<open>response?.data?.detail\<close>\<close>

definition response_detail :: "AxiosResponse option \<Rightarrow> js" where
  "response_detail r =
     (case r of None \<Rightarrow> JUndefined | Some resp \<Rightarrow> detail_of (data_AR resp))"

text \<open>
  \<open>handleError\<close> returns a value (\<open>Inr\<close>) or throws (\<open>Inl\<close>). The declared
  result type is \<open>string\<close>; the value returned is the \<open>detail\<close> as it came.
\<close>

definition handleError :: "unknown \<Rightarrow> thrown + js" where
  "handleError error =
     (case error of
        Trap m \<Rightarrow> Inl (JsError m)
      | Caught (AxiosError r) \<Rightarrow> Inr (js_or (response_detail r) (JStr ''An error occurred''))
      | Caught (JsError m) \<Rightarrow> Inr (JStr ''An unexpected error occurred''))"

subsection \<open>The world outside the stores\<close>

text \<open>
  The gateway reads and writes \<open>localStorage['access_token']\<close>, sets
  \<open>window.location.href\<close> and talks to the network. The world holds the token,
  the location, and two logs: the requests in the order they left (each after
  the request interceptor added the Authorization header), and the exchanges in
  the order they completed, each with whether it was answered successfully. The
  logs are a history of the run; no code reads them.
\<close>

datatype http_method = GET | POST | PUT | DELETE

datatype req_body =
    NoBody
  | Params int int "string option"
  | JsonLogin UserLogin
  | JsonTitle string
  | JsonQuery RAGQuery

record Request =
  method_X :: http_method
  url_X :: string
  authorization_X :: "string option"
  body_X :: req_body

record Exchange =
  request_X :: Request
  ok_X :: bool

record World =
  access_token :: "string option"
  href :: string
  sent :: "Request list"
  exchanges :: "Exchange list"

definition initialWorld :: World where
  "initialWorld = \<lparr>access_token = None, href = ''/'', sent = [], exchanges = []\<rparr>"

definition getToken :: "World \<Rightarrow> string option" where
  "getToken w = access_token w"

definition setToken :: "string \<Rightarrow> World \<Rightarrow> World" where
  "setToken t w = w\<lparr>access_token := Some t\<rparr>"

definition clearToken :: "World \<Rightarrow> World" where
  "clearToken w = w\<lparr>access_token := None\<rparr>"

definition isAuthenticated_api :: "World \<Rightarrow> bool" where
  "isAuthenticated_api w = truthy (getToken w)"

text \<open>The request interceptor: \<open>if (token) headers.Authorization = `Bearer ${token}`\<close>.\<close>

definition request_interceptor :: "World \<Rightarrow> string option" where
  "request_interceptor w =
     (if truthy (getToken w) then Some (''Bearer '' @ the (getToken w)) else None)"

text \<open>
  The response interceptor's error branch: on status 401 the token is cleared
  and the page is sent to \<open>/login\<close>; the error is rejected again in every case.
\<close>

definition response_interceptor :: "thrown \<Rightarrow> World \<Rightarrow> World" where
  "response_interceptor error w =
     (case error of
        AxiosError (Some resp) \<Rightarrow>
          (if status_AR resp = 401 then (clearToken w)\<lparr>href := ''/login''\<rparr> else w)
      | _ \<Rightarrow> w)"

text \<open>
  What awaiting a \<open>Promise<T>\<close> gives: \<open>Inl e\<close> when it rejects with \<open>e\<close>,
  \<open>Inr v\<close> when it resolves to \<open>v\<close>.
\<close>

type_synonym 'a promise = "thrown + 'a"

text \<open>
  A call through \<open>this.client\<close> has two ends. The request leaves with the
  header the token gives at that moment. Later the answer arrives; it is an
  input of the model: \<open>Inr d\<close> is a response with data \<open>d\<close>, \<open>Inl e\<close> a rejection
  with \<open>e\<close>. Anything may happen to the world in between.
\<close>

definition client_send :: "http_method \<Rightarrow> string \<Rightarrow> req_body \<Rightarrow> World \<Rightarrow> Request \<times> World" where
  "client_send m u b w =
     (let req = \<lparr>method_X = m, url_X = u, authorization_X = request_interceptor w,
                 body_X = b\<rparr>
      in (req, w\<lparr>sent := sent w @ [req]\<rparr>))"

definition client_receive :: "Request \<Rightarrow> 'a promise \<Rightarrow> World \<Rightarrow> 'a promise \<times> World" where
  "client_receive req answer w =
     (let w1 = w\<lparr>exchanges := exchanges w @ [\<lparr>request_X = req, ok_X = \<not> isl answer\<rparr>]\<rparr>
      in case answer of
           Inr d \<Rightarrow> (Inr d, w1)
         | Inl e \<Rightarrow> (Inl e, response_interceptor e w1))"

text \<open>The call whose answer arrives before anything else happens.\<close>

definition client :: "http_method \<Rightarrow> string \<Rightarrow> req_body \<Rightarrow> 'a promise \<Rightarrow> World
    \<Rightarrow> 'a promise \<times> World" where
  "client m u b answer w =
     (let (req, w1) = client_send m u b w in client_receive req answer w1)"

text \<open>
  The gateway's methods. A method whose name ends in \<open>_send\<close> is the method up
  to its \<open>await\<close>; where the method does something with the answer
  (\<open>login\<close> stores the token) there is a \<open>_receive\<close> for what follows the
  \<open>await\<close>, and otherwise \<open>client_receive\<close> is all that follows. The plain
  name is the whole method, for a call whose answer arrives before anything
  else happens.
\<close>

definition api_login_send :: "UserLogin \<Rightarrow> World \<Rightarrow> Request \<times> World" where
  "api_login_send credentials w =
     client_send POST ''/api/auth/login'' (JsonLogin credentials) w"

definition api_login_receive :: "Request \<Rightarrow> AuthTokens promise \<Rightarrow> World
    \<Rightarrow> AuthTokens promise \<times> World" where
  "api_login_receive req answer w =
     (case client_receive req answer w of
        (Inr d, w1) \<Rightarrow> (Inr d, setToken (access_token_AT d) w1)
      | (Inl e, w1) \<Rightarrow> (Inl e, w1))"

definition api_login :: "UserLogin \<Rightarrow> AuthTokens promise \<Rightarrow> World
    \<Rightarrow> AuthTokens promise \<times> World" where
  "api_login credentials answer w =
     (let (req, w1) = api_login_send credentials w in api_login_receive req answer w1)"

definition api_logout :: "World \<Rightarrow> World" where
  "api_logout w = clearToken w"

definition getCurrentUser_send :: "World \<Rightarrow> Request \<times> World" where
  "getCurrentUser_send w = client_send GET ''/api/auth/me'' NoBody w"

definition getCurrentUser :: "User promise \<Rightarrow> World \<Rightarrow> User promise \<times> World" where
  "getCurrentUser answer w = client GET ''/api/auth/me'' NoBody answer w"

definition listChats :: "ChatListResponse promise \<Rightarrow> World
    \<Rightarrow> ChatListResponse promise \<times> World" where
  "listChats answer w = client GET ''/api/chats'' (Params 0 50 None) answer w"

definition createChat :: "string option \<Rightarrow> Chat promise \<Rightarrow> World
    \<Rightarrow> Chat promise \<times> World" where
  "createChat title answer w =
     client POST ''/api/chats'' (JsonTitle (or_else title ''New Chat'')) answer w"

definition getChat :: "string \<Rightarrow> ChatWithMessages promise \<Rightarrow> World
    \<Rightarrow> ChatWithMessages promise \<times> World" where
  "getChat chatId answer w = client GET (''/api/chats/'' @ chatId) NoBody answer w"

definition api_deleteChat_send :: "string \<Rightarrow> World \<Rightarrow> Request \<times> World" where
  "api_deleteChat_send chatId w = client_send DELETE (''/api/chats/'' @ chatId) NoBody w"

definition api_deleteChat :: "string \<Rightarrow> unit promise \<Rightarrow> World
    \<Rightarrow> unit promise \<times> World" where
  "api_deleteChat chatId answer w =
     client DELETE (''/api/chats/'' @ chatId) NoBody answer w"

definition api_sendMessage_send :: "string \<Rightarrow> RAGQuery \<Rightarrow> World \<Rightarrow> Request \<times> World" where
  "api_sendMessage_send chatId q w =
     client_send POST (''/api/chats/'' @ chatId @ ''/messages'') (JsonQuery q) w"

definition api_sendMessage :: "string \<Rightarrow> RAGQuery \<Rightarrow> RAGResponse promise \<Rightarrow> World
    \<Rightarrow> RAGResponse promise \<times> World" where
  "api_sendMessage chatId q answer w =
     client POST (''/api/chats/'' @ chatId @ ''/messages'') (JsonQuery q) answer w"

definition listDocuments :: "int \<Rightarrow> int \<Rightarrow> string option \<Rightarrow> DocumentListResponse promise
    \<Rightarrow> World \<Rightarrow> DocumentListResponse promise \<times> World" where
  "listDocuments skip limit category answer w =
     client GET ''/api/documents'' (Params skip limit category) answer w"

definition api_deleteDocument :: "string \<Rightarrow> unit promise \<Rightarrow> World
    \<Rightarrow> unit promise \<times> World" where
  "api_deleteDocument documentId answer w =
     client DELETE (''/api/documents/'' @ documentId) NoBody answer w"

section \<open>Asynchronous actions\<close>

text \<open>
  A store action declared \<open>async\<close> never throws to its caller: the call returns
  a promise, and a \<open>throw\<close> in its body rejects that promise. The action runs
  until its first \<open>await\<close> on the gateway and stops there; what stands after the
  \<open>await\<close> runs when the answer arrives, on the world and the store as they are
  then. Other actions can be called, and other answers can arrive, in between.

  So an action \<open>f\<close> is written in pieces. \<open>f_called\<close> is the piece up to the
  first \<open>await\<close>. Its result says how the call ended: \<open>Raised e\<close>, the call threw
  \<open>e\<close> to its caller (no \<open>async\<close> action does); \<open>Settled r\<close>, the returned
  promise is already settled with \<open>r\<close>; \<open>Awaiting p\<close>, the action waits for an
  answer and \<open>p\<close> is what its continuation remembers (the request, the values of
  its local variables). \<open>f_answered\<close> is the continuation. The interceptor, the
  rest of the gateway's method and the continuation of the action run one after
  the other when an answer arrives, and are one piece.

  \<open>f\<close> itself is the call that nothing overlaps: \<open>f_called\<close>, then \<open>f_answered\<close>
  on the world and store that \<open>f_called\<close> left. It returns what the caller's
  \<open>await f(...)\<close> gets, with the new world and store. The actions that are
  followed below only as whole calls (\<open>createNewChat\<close>, \<open>fetchChats\<close>,
  \<open>fetchDocuments\<close>, \<open>deleteDocument\<close>) are written as the whole call only.
\<close>

datatype ('a, 'p) called = Raised thrown | Settled "'a promise" | Awaiting 'p

definition resume :: "('a, 'p) called \<times> 'ws \<Rightarrow> ('p \<Rightarrow> 'ws \<Rightarrow> 'a promise \<times> 'ws)
    \<Rightarrow> 'a promise \<times> 'ws" where
  "resume c k =
     (case c of
        (Raised e, ws) \<Rightarrow> (Inl e, ws)
      | (Settled r, ws) \<Rightarrow> (r, ws)
      | (Awaiting p, ws) \<Rightarrow> k p ws)"

section \<open>Auth store (store/index.ts)\<close>

record AuthState =
  user :: "User option"
  isAuthenticated :: bool
  isLoading_A :: bool

definition initialAuthState :: AuthState where
  "initialAuthState = \<lparr>user = None, isAuthenticated = False, isLoading_A = False\<rparr>"

definition setUser :: "User option \<Rightarrow> AuthState \<Rightarrow> AuthState" where
  "setUser u s = s\<lparr>user := u, isAuthenticated := (u \<noteq> None)\<rparr>"

text \<open>
  \<open>login\<close> awaits twice: the credential exchange, then the fetch of the user.
  The second request leaves when the first answer has arrived and was a success.
\<close>

definition login_called :: "string \<Rightarrow> string \<Rightarrow> World \<times> AuthState
    \<Rightarrow> (unit, Request) called \<times> World \<times> AuthState" where
  "login_called email password ws =
     (let (w, s) = ws;
          s1 = s\<lparr>isLoading_A := True\<rparr>;
          (req, w1) = api_login_send \<lparr>email_UL = email, password_UL = password\<rparr> w
      in (Awaiting req, w1, s1))"

definition login_answered :: "Request \<Rightarrow> AuthTokens promise \<Rightarrow> World \<times> AuthState
    \<Rightarrow> (unit, Request) called \<times> World \<times> AuthState" where
  "login_answered req answer ws =
     (let (w, s) = ws
      in case api_login_receive req answer w of
           (Inl e, w1) \<Rightarrow> (Settled (Inl e), w1, s\<lparr>isLoading_A := False\<rparr>)
         | (Inr _, w1) \<Rightarrow>
             (let (req2, w2) = getCurrentUser_send w1 in (Awaiting req2, w2, s)))"

definition login_answered_me :: "Request \<Rightarrow> User promise \<Rightarrow> World \<times> AuthState
    \<Rightarrow> unit promise \<times> World \<times> AuthState" where
  "login_answered_me req answer ws =
     (let (w, s) = ws
      in case client_receive req answer w of
           (Inl e, w1) \<Rightarrow> (Inl e, w1, s\<lparr>isLoading_A := False\<rparr>)
         | (Inr u, w1) \<Rightarrow>
             (Inr (), w1,
              s\<lparr>user := Some u, isAuthenticated := True, isLoading_A := False\<rparr>))"

definition login :: "string \<Rightarrow> string \<Rightarrow> AuthTokens promise \<Rightarrow> User promise
    \<Rightarrow> World \<times> AuthState \<Rightarrow> unit promise \<times> World \<times> AuthState" where
  "login email password answer_login answer_me ws =
     resume (login_called email password ws)
       (\<lambda>req ws1. resume (login_answered req answer_login ws1)
          (\<lambda>req2. login_answered_me req2 answer_me))"

text \<open>
  \<open>logout\<close> awaits the gateway's \<open>logout\<close>, which clears the token and awaits
  nothing. The \<open>set\<close> is still a continuation: it runs after the call has
  returned.
\<close>

definition logout_called :: "World \<times> AuthState \<Rightarrow> (unit, unit) called \<times> World \<times> AuthState" where
  "logout_called ws = (let (w, s) = ws in (Awaiting (), api_logout w, s))"

definition logout_resumed :: "World \<times> AuthState \<Rightarrow> unit promise \<times> World \<times> AuthState" where
  "logout_resumed ws =
     (let (w, s) = ws in (Inr (), w, s\<lparr>user := None, isAuthenticated := False\<rparr>))"

definition logout :: "World \<times> AuthState \<Rightarrow> unit promise \<times> World \<times> AuthState" where
  "logout ws = resume (logout_called ws) (\<lambda>u. logout_resumed)"

definition fetchCurrentUser_called :: "World \<times> AuthState
    \<Rightarrow> (unit, Request) called \<times> World \<times> AuthState" where
  "fetchCurrentUser_called ws =
     (let (w, s) = ws
      in if \<not> isAuthenticated_api w
         then (Settled (Inr ()), w, s\<lparr>user := None, isAuthenticated := False\<rparr>)
         else
           (let s1 = s\<lparr>isLoading_A := True\<rparr>;
                (req, w1) = getCurrentUser_send w
            in (Awaiting req, w1, s1)))"

definition fetchCurrentUser_answered :: "Request \<Rightarrow> User promise \<Rightarrow> World \<times> AuthState
    \<Rightarrow> unit promise \<times> World \<times> AuthState" where
  "fetchCurrentUser_answered req answer ws =
     (let (w, s) = ws
      in case client_receive req answer w of
           (Inr u, w1) \<Rightarrow>
             (Inr (), w1,
              s\<lparr>user := Some u, isAuthenticated := True, isLoading_A := False\<rparr>)
         | (Inl e, w1) \<Rightarrow>
             (Inr (), w1,
              s\<lparr>user := None, isAuthenticated := False, isLoading_A := False\<rparr>))"

definition fetchCurrentUser :: "User promise
    \<Rightarrow> World \<times> AuthState \<Rightarrow> unit promise \<times> World \<times> AuthState" where
  "fetchCurrentUser answer ws =
     resume (fetchCurrentUser_called ws) (\<lambda>req. fetchCurrentUser_answered req answer)"

text \<open>
  A call of \<open>fetchCurrentUser\<close> during whose \<open>await\<close> the user logs out: the
  whole of \<open>logout\<close> runs between the two pieces.
\<close>

definition fetchCurrentUser_overlapped_by_logout :: "User promise
    \<Rightarrow> World \<times> AuthState \<Rightarrow> unit promise \<times> World \<times> AuthState" where
  "fetchCurrentUser_overlapped_by_logout answer ws =
     resume (fetchCurrentUser_called ws)
       (\<lambda>req ws1. fetchCurrentUser_answered req answer (snd (logout ws1)))"

text \<open>
  The store is wrapped in zustand's \<open>persist\<close> with
  \<open>partialize: (state) => ({ user: state.user })\<close>: only \<open>user\<close> is written to
  storage. On startup the middleware lays the stored object over the state the
  creator function returns, so every field that was not stored has its initial
  value.
\<close>

record PersistedAuth =
  user_P :: "User option"

definition partialize :: "AuthState \<Rightarrow> PersistedAuth" where
  "partialize state = \<lparr>user_P = user state\<rparr>"

definition rehydrate :: "PersistedAuth \<Rightarrow> AuthState" where
  "rehydrate p = initialAuthState\<lparr>user := user_P p\<rparr>"

text \<open>
  The two conditions the specification derives the session from. A token exists
  when the gateway's own test \<open>isAuthenticated()\<close> says so. The most recent
  fetch of the current user is the last \<open>GET /api/auth/me\<close> that completed.
\<close>

definition user_fetches :: "World \<Rightarrow> Exchange list" where
  "user_fetches w =
     filter (\<lambda>x. method_X (request_X x) = GET \<and> url_X (request_X x) = ''/api/auth/me'')
       (exchanges w)"

definition last_fetch_succeeded :: "World \<Rightarrow> bool" where
  "last_fetch_succeeded w =
     (case rev (user_fetches w) of [] \<Rightarrow> False | x # _ \<Rightarrow> ok_X x)"

definition session_derived :: "World \<Rightarrow> AuthState \<Rightarrow> bool" where
  "session_derived w s \<longleftrightarrow>
     (isAuthenticated s \<longleftrightarrow> isAuthenticated_api w \<and> last_fetch_succeeded w)"

section \<open>Chat store (store/index.ts)\<close>

text \<open>
  The \<open>error\<close> of a store is declared \<open>string | null\<close> and holds what
  \<open>handleError\<close> returned. In a \<open>catch\<close> block \<open>handleError\<close> is evaluated before
  \<open>set\<close> is called: were it to throw, the store would stay as it is and the
  action would reject with what it threw.
\<close>

record ChatState =
  chats :: "Chat list"
  currentChat :: "Chat option"
  messages :: "Message list"
  isLoading_C :: bool
  error_C :: "js option"

definition initialChatState :: ChatState where
  "initialChatState =
     \<lparr>chats = [], currentChat = None, messages = [], isLoading_C = False, error_C = None\<rparr>"

definition setChats :: "Chat list \<Rightarrow> ChatState \<Rightarrow> ChatState" where
  "setChats cs s = s\<lparr>chats := cs\<rparr>"

definition setCurrentChat :: "Chat option \<Rightarrow> ChatState \<Rightarrow> ChatState" where
  "setCurrentChat chat s = s\<lparr>currentChat := chat\<rparr>"

definition setMessages :: "Message list \<Rightarrow> ChatState \<Rightarrow> ChatState" where
  "setMessages ms s = s\<lparr>messages := ms\<rparr>"

definition addMessage :: "Message \<Rightarrow> ChatState \<Rightarrow> ChatState" where
  "addMessage message s = s\<lparr>messages := messages s @ [message]\<rparr>"

definition fetchChats :: "ChatListResponse promise
    \<Rightarrow> World \<times> ChatState \<Rightarrow> unit promise \<times> World \<times> ChatState" where
  "fetchChats answer ws =
     (let (w, s) = ws;
          s1 = s\<lparr>isLoading_C := True, error_C := None\<rparr>
      in case listChats answer w of
           (Inr response, w1) \<Rightarrow>
             (Inr (), w1, s1\<lparr>chats := chats_CL response, isLoading_C := False\<rparr>)
         | (Inl e, w1) \<Rightarrow>
             (case handleError (Caught e) of
                Inr m \<Rightarrow> (Inr (), w1, s1\<lparr>error_C := Some m, isLoading_C := False\<rparr>)
              | Inl e' \<Rightarrow> (Inl e', w1, s1)))"

text \<open>
  \<open>fetchChat\<close> in its three pieces, as they act on the store: what runs before
  the \<open>await\<close>, and the two continuations. Each piece is one call of \<open>set\<close>. The
  object stored as \<open>currentChat\<close> is the response itself, seen at type \<open>Chat\<close>.
\<close>

definition fetchChat_called :: "ChatState \<Rightarrow> ChatState" where
  "fetchChat_called s = s\<lparr>isLoading_C := True, error_C := None\<rparr>"

definition fetchChat_resolved :: "ChatWithMessages \<Rightarrow> ChatState \<Rightarrow> ChatState" where
  "fetchChat_resolved chat s =
     s\<lparr>currentChat := Some (Chat.truncate chat), messages := messages_CW chat,
       isLoading_C := False\<rparr>"

definition fetchChat_rejected :: "thrown \<Rightarrow> ChatState \<Rightarrow> ChatState" where
  "fetchChat_rejected e s =
     (case handleError (Caught e) of
        Inr m \<Rightarrow> s\<lparr>error_C := Some m, isLoading_C := False\<rparr>
      | Inl e' \<Rightarrow> s)"

definition fetchChat :: "string \<Rightarrow> ChatWithMessages promise
    \<Rightarrow> World \<times> ChatState \<Rightarrow> unit promise \<times> World \<times> ChatState" where
  "fetchChat chatId answer ws =
     (let (w, s) = ws;
          s1 = fetchChat_called s
      in case getChat chatId answer w of
           (Inr chat, w1) \<Rightarrow> (Inr (), w1, fetchChat_resolved chat s1)
         | (Inl e, w1) \<Rightarrow>
             (case handleError (Caught e) of Inr m \<Rightarrow> Inr () | Inl e' \<Rightarrow> Inl e',
              w1, fetchChat_rejected e s1))"

text \<open>
  Calls of \<open>fetchChat\<close> that overlap: the store sees, in some order, calls being
  made and answers coming back. An event list is one such order.
\<close>

datatype fetchChat_event =
    Called string
  | Resolved ChatWithMessages
  | Rejected thrown

fun fetchChat_step :: "fetchChat_event \<Rightarrow> ChatState \<Rightarrow> ChatState" where
  "fetchChat_step (Called chatId) s = fetchChat_called s"
| "fetchChat_step (Resolved chat) s = fetchChat_resolved chat s"
| "fetchChat_step (Rejected e) s = fetchChat_rejected e s"

fun fetchChat_events :: "fetchChat_event list \<Rightarrow> ChatState \<Rightarrow> ChatState" where
  "fetchChat_events [] s = s"
| "fetchChat_events (ev # evs) s = fetchChat_events evs (fetchChat_step ev s)"

text \<open>The response of the last call that completed with one, if any did.\<close>

fun last_response :: "fetchChat_event list \<Rightarrow> ChatWithMessages option" where
  "last_response [] = None"
| "last_response (ev # evs) =
     (case last_response evs of
        Some chat \<Rightarrow> Some chat
      | None \<Rightarrow> (case ev of Resolved chat \<Rightarrow> Some chat | _ \<Rightarrow> None))"

definition createNewChat :: "string option \<Rightarrow> Chat promise
    \<Rightarrow> World \<times> ChatState \<Rightarrow> Chat promise \<times> World \<times> ChatState" where
  "createNewChat title answer ws =
     (let (w, s) = ws;
          s1 = s\<lparr>isLoading_C := True, error_C := None\<rparr>
      in case createChat title answer w of
           (Inr chat, w1) \<Rightarrow>
             (Inr chat, w1,
              s1\<lparr>chats := chat # chats s1, currentChat := Some chat, messages := [],
                 isLoading_C := False\<rparr>)
         | (Inl e, w1) \<Rightarrow>
             (case handleError (Caught e) of
                Inr m \<Rightarrow> (Inl e, w1, s1\<lparr>error_C := Some m, isLoading_C := False\<rparr>)
              | Inl e' \<Rightarrow> (Inl e', w1, s1)))"

text \<open>\<open>state.currentChat?.id === chatId\<close>\<close>

definition currentChat_is :: "string \<Rightarrow> ChatState \<Rightarrow> bool" where
  "currentChat_is chatId s =
     (case currentChat s of None \<Rightarrow> False | Some c \<Rightarrow> id_C c = chatId)"

text \<open>
  \<open>deleteChat\<close>: the success continuation is one \<open>set\<close> with a function of the
  state, so the comparison with \<open>currentChat\<close> is made on the store as it is
  when the answer arrives.
\<close>

definition deleteChat_called :: "string \<Rightarrow> World \<times> ChatState
    \<Rightarrow> (unit, Request) called \<times> World \<times> ChatState" where
  "deleteChat_called chatId ws =
     (let (w, s) = ws;
          s1 = s\<lparr>isLoading_C := True, error_C := None\<rparr>;
          (req, w1) = api_deleteChat_send chatId w
      in (Awaiting req, w1, s1))"

definition deleteChat_answered :: "string \<Rightarrow> Request \<Rightarrow> unit promise \<Rightarrow> World \<times> ChatState
    \<Rightarrow> unit promise \<times> World \<times> ChatState" where
  "deleteChat_answered chatId req answer ws =
     (let (w, s) = ws
      in case client_receive req answer w of
           (Inr _, w1) \<Rightarrow>
             (Inr (), w1,
              s\<lparr>chats := filter (\<lambda>c. id_C c \<noteq> chatId) (chats s),
                currentChat := (if currentChat_is chatId s then None else currentChat s),
                messages := (if currentChat_is chatId s then [] else messages s),
                isLoading_C := False\<rparr>)
         | (Inl e, w1) \<Rightarrow>
             (case handleError (Caught e) of
                Inr m \<Rightarrow> (Inr (), w1, s\<lparr>error_C := Some m, isLoading_C := False\<rparr>)
              | Inl e' \<Rightarrow> (Inl e', w1, s)))"

definition deleteChat :: "string \<Rightarrow> unit promise
    \<Rightarrow> World \<times> ChatState \<Rightarrow> unit promise \<times> World \<times> ChatState" where
  "deleteChat chatId answer ws =
     resume (deleteChat_called chatId ws) (\<lambda>req. deleteChat_answered chatId req answer)"

text \<open>
  \<open>sendMessage\<close> reads \<open>crypto.randomUUID()\<close> once and the clock twice; the three
  values are arguments (\<open>uuid\<close>, \<open>now\<close>, \<open>later\<close>). The continuation remembers the
  \<open>currentChat\<close> read at the call (a local constant) and appends to the
  \<open>messages\<close> of the store as it is when the answer arrives.
\<close>

definition userMessage :: "Chat \<Rightarrow> string \<Rightarrow> string \<Rightarrow> string \<Rightarrow> Message" where
  "userMessage chat query uuid now =
     \<lparr>id_M = uuid, chat_id_M = id_C chat, role_M = RoleUser, content_M = query,
      metadata_M = None, created_at_M = now\<rparr>"

definition assistantMessage :: "Chat \<Rightarrow> RAGResponse \<Rightarrow> string \<Rightarrow> Message" where
  "assistantMessage chat response later =
     \<lparr>id_M = message_id_R response, chat_id_M = id_C chat, role_M = RoleAssistant,
      content_M = answer_R response,
      metadata_M = Some \<lparr>sources_MD = Some (sources_R response)\<rparr>,
      created_at_M = later\<rparr>"

definition sendMessage_called :: "string \<Rightarrow> string list option \<Rightarrow> string \<Rightarrow> string
    \<Rightarrow> World \<times> ChatState \<Rightarrow> (unit, Chat \<times> Request) called \<times> World \<times> ChatState" where
  "sendMessage_called query documentIds uuid now ws =
     (let (w, s) = ws
      in case currentChat s of
           None \<Rightarrow> (Settled (Inl (JsError ''No active chat'')), w, s)
         | Some chat \<Rightarrow>
             (let s1 = addMessage (userMessage chat query uuid now) s;
                  s2 = s1\<lparr>isLoading_C := True, error_C := None\<rparr>;
                  (req, w1) = api_sendMessage_send (id_C chat)
                     \<lparr>query_Q = query, chat_id_Q = None, document_ids_Q = documentIds,
                      top_k_Q = Some 5\<rparr> w
              in (Awaiting (chat, req), w1, s2)))"

definition sendMessage_answered :: "Chat \<Rightarrow> string \<Rightarrow> Request \<Rightarrow> RAGResponse promise
    \<Rightarrow> World \<times> ChatState \<Rightarrow> unit promise \<times> World \<times> ChatState" where
  "sendMessage_answered chat later req answer ws =
     (let (w, s) = ws
      in case client_receive req answer w of
           (Inr response, w1) \<Rightarrow>
             (Inr (), w1,
              (addMessage (assistantMessage chat response later) s)\<lparr>isLoading_C := False\<rparr>)
         | (Inl e, w1) \<Rightarrow>
             (case handleError (Caught e) of
                Inr m \<Rightarrow> (Inl e, w1, s\<lparr>error_C := Some m, isLoading_C := False\<rparr>)
              | Inl e' \<Rightarrow> (Inl e', w1, s)))"

definition sendMessage :: "string \<Rightarrow> string list option \<Rightarrow> string \<Rightarrow> string \<Rightarrow> string
    \<Rightarrow> RAGResponse promise
    \<Rightarrow> World \<times> ChatState \<Rightarrow> unit promise \<times> World \<times> ChatState" where
  "sendMessage query documentIds uuid now later answer ws =
     resume (sendMessage_called query documentIds uuid now ws)
       (\<lambda>p. sendMessage_answered (fst p) later (snd p) answer)"

text \<open>
  Calls during whose \<open>await\<close> a \<open>fetchChat\<close> is called and answered: the whole
  of that \<open>fetchChat\<close> runs between the two pieces.
\<close>

definition sendMessage_overlapped_by_fetchChat :: "string \<Rightarrow> string list option \<Rightarrow> string
    \<Rightarrow> string \<Rightarrow> string \<Rightarrow> RAGResponse promise \<Rightarrow> string \<Rightarrow> ChatWithMessages promise
    \<Rightarrow> World \<times> ChatState \<Rightarrow> unit promise \<times> World \<times> ChatState" where
  "sendMessage_overlapped_by_fetchChat query documentIds uuid now later answer
       otherId other_answer ws =
     resume (sendMessage_called query documentIds uuid now ws)
       (\<lambda>p ws1. sendMessage_answered (fst p) later (snd p) answer
                  (snd (fetchChat otherId other_answer ws1)))"

definition deleteChat_overlapped_by_fetchChat :: "string \<Rightarrow> unit promise \<Rightarrow> string
    \<Rightarrow> ChatWithMessages promise
    \<Rightarrow> World \<times> ChatState \<Rightarrow> unit promise \<times> World \<times> ChatState" where
  "deleteChat_overlapped_by_fetchChat chatId answer otherId other_answer ws =
     resume (deleteChat_called chatId ws)
       (\<lambda>req ws1. deleteChat_answered chatId req answer
                    (snd (fetchChat otherId other_answer ws1)))"

text \<open>Chats and transcripts for the runs written out further down.\<close>

definition chat_of :: "string \<Rightarrow> Chat" where
  "chat_of i =
     \<lparr>id_C = i, user_id_C = ''u1'', title_C = ''Notes'', created_at_C = ''2024'',
      updated_at_C = ''2024'', message_count_C = None\<rparr>"

definition message_of :: "string \<Rightarrow> string \<Rightarrow> Message" where
  "message_of i c =
     \<lparr>id_M = i, chat_id_M = c, role_M = RoleAssistant, content_M = ''Hello'',
      metadata_M = None, created_at_M = ''2024''\<rparr>"

definition transcript_of :: "string \<Rightarrow> Message list \<Rightarrow> ChatWithMessages" where
  "transcript_of i ms =
     \<lparr>id_C = i, user_id_C = ''u1'', title_C = ''Notes'', created_at_C = ''2024'',
      updated_at_C = ''2024'', message_count_C = None, messages_CW = ms\<rparr>"

section \<open>Document store (store/index.ts)\<close>

record DocumentState =
  documents :: "Document list"
  selectedDocuments :: "string list"
  currentDocument :: "Document option"
  isLoading_D :: bool
  error_D :: "js option"

definition initialDocumentState :: DocumentState where
  "initialDocumentState =
     \<lparr>documents = [], selectedDocuments = [], currentDocument = None,
      isLoading_D = False, error_D = None\<rparr>"

definition setSelectedDocuments :: "string list \<Rightarrow> DocumentState \<Rightarrow> DocumentState" where
  "setSelectedDocuments documentIds s = s\<lparr>selectedDocuments := documentIds\<rparr>"

definition toggleDocumentSelection :: "string \<Rightarrow> DocumentState \<Rightarrow> DocumentState" where
  "toggleDocumentSelection documentId s =
     s\<lparr>selectedDocuments :=
         (if documentId \<in> set (selectedDocuments s)
          then filter (\<lambda>i. i \<noteq> documentId) (selectedDocuments s)
          else selectedDocuments s @ [documentId])\<rparr>"

definition fetchDocuments :: "string option \<Rightarrow> DocumentListResponse promise
    \<Rightarrow> World \<times> DocumentState \<Rightarrow> unit promise \<times> World \<times> DocumentState" where
  "fetchDocuments category answer ws =
     (let (w, s) = ws;
          s1 = s\<lparr>isLoading_D := True, error_D := None\<rparr>
      in case listDocuments 0 100 category answer w of
           (Inr response, w1) \<Rightarrow>
             (Inr (), w1, s1\<lparr>documents := documents_DL response, isLoading_D := False\<rparr>)
         | (Inl e, w1) \<Rightarrow>
             (case handleError (Caught e) of
                Inr m \<Rightarrow> (Inr (), w1, s1\<lparr>error_D := Some m, isLoading_D := False\<rparr>)
              | Inl e' \<Rightarrow> (Inl e', w1, s1)))"

definition deleteDocument :: "string \<Rightarrow> unit promise
    \<Rightarrow> World \<times> DocumentState \<Rightarrow> unit promise \<times> World \<times> DocumentState" where
  "deleteDocument documentId answer ws =
     (let (w, s) = ws;
          s1 = s\<lparr>isLoading_D := True, error_D := None\<rparr>
      in case api_deleteDocument documentId answer w of
           (Inr _, w1) \<Rightarrow>
             (Inr (), w1,
              s1\<lparr>documents := filter (\<lambda>d. id_D d \<noteq> documentId) (documents s1),
                 selectedDocuments :=
                   filter (\<lambda>i. i \<noteq> documentId) (selectedDocuments s1),
                 currentDocument :=
                   (case currentDocument s1 of
                      None \<Rightarrow> None
                    | Some d \<Rightarrow> if id_D d = documentId then None else Some d),
                 isLoading_D := False\<rparr>)
         | (Inl e, w1) \<Rightarrow>
             (case handleError (Caught e) of
                Inr m \<Rightarrow> (Inr (), w1, s1\<lparr>error_D := Some m, isLoading_D := False\<rparr>)
              | Inl e' \<Rightarrow> (Inl e', w1, s1)))"

text \<open>A run of toggles, in the order of the calls.\<close>

fun toggles :: "string list \<Rightarrow> DocumentState \<Rightarrow> DocumentState" where
  "toggles [] s = s"
| "toggles (x # xs) s = toggles xs (toggleDocumentSelection x s)"

text \<open>
  Calls on the Document store that change or could change the selection, each
  asynchronous one with the server's answer, run one after the other.
\<close>

datatype document_call =
    Toggle string
  | Delete string "unit promise"
  | Fetch "string option" "DocumentListResponse promise"

fun document_step :: "document_call \<Rightarrow> World \<times> DocumentState \<Rightarrow> World \<times> DocumentState" where
  "document_step (Toggle documentId) (w, s) = (w, toggleDocumentSelection documentId s)"
| "document_step (Delete documentId answer) (w, s) = snd (deleteDocument documentId answer (w, s))"
| "document_step (Fetch category answer) (w, s) = snd (fetchDocuments category answer (w, s))"

fun document_calls :: "document_call list \<Rightarrow> World \<times> DocumentState \<Rightarrow> World \<times> DocumentState" where
  "document_calls [] ws = ws"
| "document_calls (c # cs) ws = document_calls cs (document_step c ws)"

section \<open>Error normalisation\<close>

lemma handleError_Caught [simp]:
  "handleError (Caught e) =
     Inr (case e of
            AxiosError r \<Rightarrow> js_or (response_detail r) (JStr ''An error occurred'')
          | JsError m \<Rightarrow> JStr ''An unexpected error occurred'')"
  by (simp add: handleError_def split: thrown.splits)



section \<open>The session\<close>

lemma exchanges_response_interceptor [simp]:
  "exchanges (response_interceptor e w) = exchanges w"
  by (simp add: response_interceptor_def clearToken_def split: thrown.splits option.splits)

lemma last_fetch_response_interceptor [simp]:
  "last_fetch_succeeded (response_interceptor e w) = last_fetch_succeeded w"
  by (simp add: last_fetch_succeeded_def user_fetches_def)

lemma fetchCurrentUser_no_token:
  "\<not> isAuthenticated_api w \<Longrightarrow>
   fetchCurrentUser answer (w, s) = (Inr (), w, s\<lparr>user := None, isAuthenticated := False\<rparr>)"
  by (simp add: fetchCurrentUser_def fetchCurrentUser_called_def resume_def)

lemma fetchCurrentUser_token:
  "isAuthenticated_api w \<Longrightarrow>
   fetchCurrentUser answer (w, s) =
     fetchCurrentUser_answered
       \<lparr>method_X = GET, url_X = ''/api/auth/me'', authorization_X = request_interceptor w,
         body_X = NoBody\<rparr> answer
       (w\<lparr>sent := sent w @ [\<lparr>method_X = GET, url_X = ''/api/auth/me'',
                              authorization_X = request_interceptor w, body_X = NoBody\<rparr>]\<rparr>,
        s\<lparr>isLoading_A := True\<rparr>)"
  by (simp add: fetchCurrentUser_def fetchCurrentUser_called_def resume_def
      getCurrentUser_send_def client_send_def Let_def)

lemma fetchCurrentUser_answered_flag:
  "isAuthenticated (snd (snd (fetchCurrentUser_answered req answer (w, s)))) \<longleftrightarrow> \<not> isl answer"
  by (simp add: fetchCurrentUser_answered_def client_receive_def Let_def split: sum.splits)

lemma fetchCurrentUser_session:
  "session_derived (fst (snd (fetchCurrentUser answer (w, s))))
     (snd (snd (fetchCurrentUser answer (w, s))))"
proof (cases "isAuthenticated_api w")
  case False
  then show ?thesis by (simp add: fetchCurrentUser_no_token session_derived_def)
next
  case True
  show ?thesis
  proof (cases answer)
    case (Inl e)
    with True show ?thesis
      by (simp add: fetchCurrentUser_token fetchCurrentUser_answered_def client_receive_def
          Let_def session_derived_def last_fetch_succeeded_def user_fetches_def)
  next
    case (Inr u)
    with True show ?thesis
      by (simp add: fetchCurrentUser_token fetchCurrentUser_answered_def client_receive_def
          Let_def session_derived_def last_fetch_succeeded_def user_fetches_def
          isAuthenticated_api_def
          getToken_def)
  qed
qed

lemma logout_result:
  "logout (w, s) = (Inr (), clearToken w, s\<lparr>user := None, isAuthenticated := False\<rparr>)"
  by (simp add: logout_def logout_called_def logout_resumed_def resume_def api_logout_def)

lemma logout_session:
  "session_derived (fst (snd (logout (w, s)))) (snd (snd (logout (w, s))))"
  by (simp add: logout_result clearToken_def session_derived_def isAuthenticated_api_def
      getToken_def)

lemma login_result:
  "fst (login email password (Inr t) (Inr u) (w, s)) = Inr ()"
  by (simp add: login_def login_called_def login_answered_def login_answered_me_def
      resume_def api_login_send_def api_login_receive_def getCurrentUser_send_def
      client_send_def client_receive_def Let_def)

lemma login_store:
  "snd (snd (login email password (Inr t) (Inr u) (w, s))) =
     s\<lparr>user := Some u, isAuthenticated := True, isLoading_A := False\<rparr>"
  by (simp add: login_def login_called_def login_answered_def login_answered_me_def
      resume_def api_login_send_def api_login_receive_def getCurrentUser_send_def
      client_send_def client_receive_def Let_def)

lemma login_token:
  "access_token (fst (snd (login email password (Inr t) (Inr u) (w, s)))) =
     Some (access_token_AT t)"
  by (simp add: login_def login_called_def login_answered_def login_answered_me_def
      resume_def api_login_send_def api_login_receive_def getCurrentUser_send_def
      client_send_def client_receive_def Let_def setToken_def)

lemma login_last_fetch:
  "last_fetch_succeeded (fst (snd (login email password (Inr t) (Inr u) (w, s))))"
  by (simp add: login_def login_called_def login_answered_def login_answered_me_def
      resume_def api_login_send_def api_login_receive_def getCurrentUser_send_def
      client_send_def client_receive_def Let_def setToken_def last_fetch_succeeded_def
      user_fetches_def)

lemma login_session:
  assumes "access_token_AT t \<noteq> []"
  shows "session_derived (fst (snd (login email password (Inr t) (Inr u) (w, s))))
           (snd (snd (login email password (Inr t) (Inr u) (w, s))))"
  using assms
  by (simp add: session_derived_def login_store login_token login_last_fetch
      isAuthenticated_api_def getToken_def)

text \<open>
  C1. \<open>isAuthenticated\<close> is true exactly when the gateway reports a token and the
  most recent fetch of the current user succeeded: this holds after a
  \<open>fetchCurrentUser\<close>, after a \<open>logout\<close>, and after a \<open>login\<close> whose two calls
  both succeed with a non-empty access token (which also resolves and sets
  \<open>isAuthenticated\<close>), each time for a call that no other action overlaps.
  Whatever ran during the \<open>await\<close>, the continuation of \<open>fetchCurrentUser\<close>
  sets \<open>isAuthenticated\<close> to whether its fetch succeeded and the continuation of
  \<open>logout\<close> sets it to false; neither looks at the token. \<open>setUser u\<close> sets
  \<open>isAuthenticated\<close> to whether \<open>u\<close> is present, and looks at neither the token
  nor any fetch. What is restored on startup has \<open>isAuthenticated\<close> false and
  the \<open>user\<close> that was stored.
\<close>

theorem auth_session:
  "session_derived (fst (snd (fetchCurrentUser answer (w, s))))
     (snd (snd (fetchCurrentUser answer (w, s))))
   \<and> session_derived (fst (snd (logout (w, s)))) (snd (snd (logout (w, s))))
   \<and> (access_token_AT t \<noteq> [] \<longrightarrow>
        fst (login email password (Inr t) (Inr u) (w, s)) = Inr ()
        \<and> isAuthenticated (snd (snd (login email password (Inr t) (Inr u) (w, s))))
        \<and> session_derived (fst (snd (login email password (Inr t) (Inr u) (w, s))))
            (snd (snd (login email password (Inr t) (Inr u) (w, s)))))
   \<and> (isAuthenticated (snd (snd (fetchCurrentUser_answered req answer (w, s)))) \<longleftrightarrow>
        \<not> isl answer)
   \<and> \<not> isAuthenticated (snd (snd (logout_resumed (w, s))))
   \<and> (isAuthenticated (setUser v s) \<longleftrightarrow> v \<noteq> None)
   \<and> \<not> isAuthenticated (rehydrate p)
   \<and> user (rehydrate (partialize s)) = user s"
proof -
  have "isAuthenticated (setUser v s) \<longleftrightarrow> v \<noteq> None"
    by (simp add: setUser_def)
  moreover have "\<not> isAuthenticated (rehydrate p)"
    by (simp add: rehydrate_def initialAuthState_def)
  moreover have "user (rehydrate (partialize s)) = user s"
    by (simp add: rehydrate_def partialize_def)
  moreover have "\<not> isAuthenticated (snd (snd (logout_resumed (w, s))))"
    by (simp add: logout_resumed_def)
  moreover have "fst (login email password (Inr t) (Inr u) (w, s)) = Inr ()"
    and "isAuthenticated (snd (snd (login email password (Inr t) (Inr u) (w, s))))"
    by (simp_all add: login_result login_store)
  ultimately show ?thesis
    using fetchCurrentUser_session [of answer w s] logout_session [of w s]
      login_session [of t email password u w s]
      fetchCurrentUser_answered_flag [of req answer w s]
    by blast
qed

theorem auth_session_witness:
  "access_token_AT \<lparr>access_token_AT = ''tok'', token_type_AT = ''bearer''\<rparr> \<noteq> []
   \<and> isAuthenticated (snd (snd (login ''a@b.com'' ''pw''
        (Inr \<lparr>access_token_AT = ''tok'', token_type_AT = ''bearer''\<rparr>)
        (Inr \<lparr>id_U = ''u1'', email_U = ''a@b.com'', username_U = ''a'', full_name_U = None,
              institution_U = None, is_active_U = True, created_at_U = ''2024''\<rparr>)
        (initialWorld, initialAuthState))))
   \<and> session_derived
       (fst (snd (login ''a@b.com'' ''pw''
        (Inr \<lparr>access_token_AT = ''tok'', token_type_AT = ''bearer''\<rparr>)
        (Inr \<lparr>id_U = ''u1'', email_U = ''a@b.com'', username_U = ''a'', full_name_U = None,
              institution_U = None, is_active_U = True, created_at_U = ''2024''\<rparr>)
        (initialWorld, initialAuthState))))
       (snd (snd (login ''a@b.com'' ''pw''
        (Inr \<lparr>access_token_AT = ''tok'', token_type_AT = ''bearer''\<rparr>)
        (Inr \<lparr>id_U = ''u1'', email_U = ''a@b.com'', username_U = ''a'', full_name_U = None,
              institution_U = None, is_active_U = True, created_at_U = ''2024''\<rparr>)
        (initialWorld, initialAuthState))))"
  using auth_session [of "Inl (AxiosError None)" initialWorld initialAuthState
      "\<lparr>access_token_AT = ''tok'', token_type_AT = ''bearer''\<rparr>" "''a@b.com''" "''pw''"
      "\<lparr>id_U = ''u1'', email_U = ''a@b.com'', username_U = ''a'', full_name_U = None,
        institution_U = None, is_active_U = True, created_at_U = ''2024''\<rparr>"]
  by simp

text \<open>
  In the store as created, with no token and no fetch made, \<open>setUser\<close> with a
  user gives \<open>isAuthenticated\<close> true. And when the user logs out while a
  \<open>fetchCurrentUser\<close> is waiting for an answer that then is a success,
  \<open>isAuthenticated\<close> ends true with the token cleared.
\<close>

theorem session_not_derived:
  "session_derived initialWorld initialAuthState
   \<and> \<not> session_derived initialWorld
        (setUser (Some \<lparr>id_U = ''u1'', email_U = ''a@b.com'', username_U = ''a'',
                        full_name_U = None, institution_U = None, is_active_U = True,
                        created_at_U = ''2024''\<rparr>) initialAuthState)
   \<and> \<not> session_derived
        (fst (snd (fetchCurrentUser_overlapped_by_logout
           (Inr \<lparr>id_U = ''u1'', email_U = ''a@b.com'', username_U = ''a'',
                 full_name_U = None, institution_U = None, is_active_U = True,
                 created_at_U = ''2024''\<rparr>)
           (setToken ''tok'' initialWorld, initialAuthState))))
        (snd (snd (fetchCurrentUser_overlapped_by_logout
           (Inr \<lparr>id_U = ''u1'', email_U = ''a@b.com'', username_U = ''a'',
                 full_name_U = None, institution_U = None, is_active_U = True,
                 created_at_U = ''2024''\<rparr>)
           (setToken ''tok'' initialWorld, initialAuthState))))"
  by (simp add: session_derived_def initialWorld_def initialAuthState_def setUser_def
      isAuthenticated_api_def getToken_def setToken_def fetchCurrentUser_overlapped_by_logout_def
      fetchCurrentUser_called_def fetchCurrentUser_answered_def resume_def logout_result
      clearToken_def getCurrentUser_send_def client_send_def client_receive_def Let_def)

text \<open>
  C9. \<open>fetchCurrentUser\<close> with no token (or an empty one) resolves with the user
  cleared and \<open>isAuthenticated\<close> false, and leaves the world as it was: no
  request leaves. With a token and a failing fetch it resolves as well, with the
  user cleared, \<open>isAuthenticated\<close> false and \<open>isLoading\<close> false; the Auth store
  has no error field to fill.
\<close>

theorem fetchCurrentUser_anonymous:
  "(\<not> isAuthenticated_api w \<longrightarrow>
      fetchCurrentUser answer (w, s) = (Inr (), w, s\<lparr>user := None, isAuthenticated := False\<rparr>))
   \<and> (access_token w = None \<longrightarrow>
      fetchCurrentUser answer (w, s) = (Inr (), w, s\<lparr>user := None, isAuthenticated := False\<rparr>))
   \<and> (isAuthenticated_api w \<longrightarrow>
      fst (fetchCurrentUser (Inl e) (w, s)) = Inr ()
      \<and> snd (snd (fetchCurrentUser (Inl e) (w, s))) =
          s\<lparr>user := None, isAuthenticated := False, isLoading_A := False\<rparr>)"
  by (simp add: fetchCurrentUser_no_token fetchCurrentUser_token fetchCurrentUser_answered_def
      client_receive_def Let_def isAuthenticated_api_def getToken_def)

theorem fetchCurrentUser_anonymous_witness:
  "\<not> isAuthenticated_api initialWorld
   \<and> access_token initialWorld = None
   \<and> fetchCurrentUser (Inl (AxiosError None)) (initialWorld, initialAuthState) =
       (Inr (), initialWorld, initialAuthState)
   \<and> isAuthenticated_api (initialWorld\<lparr>access_token := Some ''tok''\<rparr>)
   \<and> fst (fetchCurrentUser (Inl (AxiosError (Some \<lparr>status_AR = 401, data_AR = JNull\<rparr>)))
          (initialWorld\<lparr>access_token := Some ''tok''\<rparr>,
           initialAuthState\<lparr>isAuthenticated := True\<rparr>)) = Inr ()
   \<and> snd (snd (fetchCurrentUser (Inl (AxiosError (Some \<lparr>status_AR = 401, data_AR = JNull\<rparr>)))
          (initialWorld\<lparr>access_token := Some ''tok''\<rparr>,
           initialAuthState\<lparr>isAuthenticated := True\<rparr>))) = initialAuthState"
  using fetchCurrentUser_anonymous [of initialWorld "Inl (AxiosError None)" initialAuthState
          "AxiosError None"]
    fetchCurrentUser_anonymous [of "initialWorld\<lparr>access_token := Some ''tok''\<rparr>"
          "Inl (AxiosError None)" "initialAuthState\<lparr>isAuthenticated := True\<rparr>"
          "AxiosError (Some \<lparr>status_AR = 401, data_AR = JNull\<rparr>)"]
  by (simp add: initialWorld_def initialAuthState_def isAuthenticated_api_def getToken_def)

section \<open>The chat store\<close>

lemma fetchChat_step_keeps:
  "(case ev of
      Resolved chat \<Rightarrow>
        currentChat (fetchChat_step ev s) = Some (Chat.truncate chat) \<and>
        messages (fetchChat_step ev s) = messages_CW chat
    | _ \<Rightarrow>
        currentChat (fetchChat_step ev s) = currentChat s \<and>
        messages (fetchChat_step ev s) = messages s)"
  by (cases ev)
     (simp_all add: fetchChat_called_def fetchChat_resolved_def fetchChat_rejected_def)

lemma fetchChat_events_pair:
  "(case last_response evs of
      Some chat \<Rightarrow>
        currentChat (fetchChat_events evs s) = Some (Chat.truncate chat) \<and>
        messages (fetchChat_events evs s) = messages_CW chat
    | None \<Rightarrow>
        currentChat (fetchChat_events evs s) = currentChat s \<and>
        messages (fetchChat_events evs s) = messages s)"
proof (induction evs arbitrary: s)
  case Nil
  show ?case by simp
next
  case (Cons ev evs)
  show ?case
  proof (cases "last_response evs")
    case (Some chat)
    with Cons.IH [of "fetchChat_step ev s"] show ?thesis by simp
  next
    case None
    with Cons.IH [of "fetchChat_step ev s"] fetchChat_step_keeps [of ev s]
    show ?thesis by (cases ev) simp_all
  qed
qed

lemma fetchChat_as_events:
  "snd (snd (fetchChat chatId answer (w, s))) =
     fetchChat_events
       [Called chatId, case answer of Inr chat \<Rightarrow> Resolved chat | Inl e \<Rightarrow> Rejected e] s"
  by (simp add: fetchChat_def getChat_def client_def client_send_def client_receive_def Let_def
      split: sum.splits)

text \<open>
  C3. Whatever the order in which \<open>fetchChat\<close> calls are made and answered, once
  a call has completed with a response the store holds that response's chat as
  \<open>currentChat\<close> and that response's messages as \<open>messages\<close>, for the last such
  response; while none has, both fields are as they were. A single call is the
  event of the call followed by the event of its answer, and the answer's
  success is one update of the state that writes both fields.
\<close>

theorem fetchChat_pairs_messages:
  "(case last_response evs of
      Some chat \<Rightarrow>
        currentChat (fetchChat_events evs s) = Some (Chat.truncate chat) \<and>
        messages (fetchChat_events evs s) = messages_CW chat
    | None \<Rightarrow>
        currentChat (fetchChat_events evs s) = currentChat s \<and>
        messages (fetchChat_events evs s) = messages s)
   \<and> snd (snd (fetchChat chatId answer (w, s))) =
       fetchChat_events
         [Called chatId, case answer of Inr chat \<Rightarrow> Resolved chat | Inl e \<Rightarrow> Rejected e] s
   \<and> fetchChat_step (Resolved chat) s =
       s\<lparr>currentChat := Some (Chat.truncate chat), messages := messages_CW chat,
         isLoading_C := False\<rparr>"
  using fetchChat_events_pair [of evs s] fetchChat_as_events [of chatId answer w s]
  by (simp add: fetchChat_resolved_def)

text \<open>
  C8. When the gateway answers \<open>createNewChat\<close> with chat \<open>c\<close>, the call resolves
  to \<open>c\<close>, the chat list is \<open>c\<close> in front of the previous list, \<open>currentChat\<close> is
  \<open>c\<close> and \<open>messages\<close> is empty.
\<close>

theorem createNewChat_success:
  "fst (createNewChat title (Inr c) (w, s)) = Inr c
   \<and> chats (snd (snd (createNewChat title (Inr c) (w, s)))) = c # chats s
   \<and> currentChat (snd (snd (createNewChat title (Inr c) (w, s)))) = Some c
   \<and> messages (snd (snd (createNewChat title (Inr c) (w, s)))) = []"
  by (simp add: createNewChat_def createChat_def client_def client_send_def client_receive_def
      Let_def)

lemma deleteChat_unfold:
  "deleteChat chatId answer (w, s) =
     deleteChat_answered chatId
       \<lparr>method_X = DELETE, url_X = ''/api/chats/'' @ chatId,
         authorization_X = request_interceptor w, body_X = NoBody\<rparr> answer
       (w\<lparr>sent := sent w @ [\<lparr>method_X = DELETE, url_X = ''/api/chats/'' @ chatId,
                              authorization_X = request_interceptor w, body_X = NoBody\<rparr>]\<rparr>,
        s\<lparr>isLoading_C := True, error_C := None\<rparr>)"
  by (simp add: deleteChat_def deleteChat_called_def resume_def api_deleteChat_send_def
      client_send_def Let_def)

lemma deleteChat_answered_success:
  "deleteChat_answered chatId req (Inr ()) (w, s) =
     (Inr (), w\<lparr>exchanges := exchanges w @ [\<lparr>request_X = req, ok_X = True\<rparr>]\<rparr>,
      s\<lparr>chats := filter (\<lambda>c. id_C c \<noteq> chatId) (chats s),
        currentChat := (if currentChat_is chatId s then None else currentChat s),
        messages := (if currentChat_is chatId s then [] else messages s),
        isLoading_C := False\<rparr>)"
  by (simp add: deleteChat_answered_def client_receive_def Let_def)

lemma currentChat_is_written_out:
  "currentChat_is chatId s \<longleftrightarrow> (\<exists>c. currentChat s = Some c \<and> id_C c = chatId)"
  by (simp add: currentChat_is_def split: option.splits)

lemma currentChat_is_loading [simp]:
  "currentChat_is chatId (s\<lparr>isLoading_C := l, error_C := e\<rparr>) = currentChat_is chatId s"
  by (simp add: currentChat_is_def)

text \<open>
  C7. When the gateway accepts \<open>deleteChat chatId\<close>, the update that applies the
  answer removes every chat with that id from the list and keeps the others in
  order. The comparison with \<open>currentChat\<close> is made in that update, on the store
  as it is when the answer arrives: if \<open>currentChat\<close> has that id then,
  \<open>currentChat\<close> becomes null and \<open>messages\<close> empty in the same update; otherwise
  both are unchanged. For a call that nothing overlaps, the call resolves and
  that \<open>currentChat\<close> is the one at the time of the call.
\<close>

theorem deleteChat_success:
  "chats (snd (snd (deleteChat_answered chatId req (Inr ()) (w, s)))) =
     filter (\<lambda>c. id_C c \<noteq> chatId) (chats s)
   \<and> chatId \<notin> id_C ` set (chats (snd (snd (deleteChat_answered chatId req (Inr ()) (w, s)))))
   \<and> (if \<exists>c. currentChat s = Some c \<and> id_C c = chatId
      then currentChat (snd (snd (deleteChat_answered chatId req (Inr ()) (w, s)))) = None
         \<and> messages (snd (snd (deleteChat_answered chatId req (Inr ()) (w, s)))) = []
      else currentChat (snd (snd (deleteChat_answered chatId req (Inr ()) (w, s)))) = currentChat s
         \<and> messages (snd (snd (deleteChat_answered chatId req (Inr ()) (w, s)))) = messages s)
   \<and> fst (deleteChat chatId (Inr ()) (w, s)) = Inr ()
   \<and> chats (snd (snd (deleteChat chatId (Inr ()) (w, s)))) =
       filter (\<lambda>c. id_C c \<noteq> chatId) (chats s)
   \<and> (if \<exists>c. currentChat s = Some c \<and> id_C c = chatId
      then currentChat (snd (snd (deleteChat chatId (Inr ()) (w, s)))) = None
         \<and> messages (snd (snd (deleteChat chatId (Inr ()) (w, s)))) = []
      else currentChat (snd (snd (deleteChat chatId (Inr ()) (w, s)))) = currentChat s
         \<and> messages (snd (snd (deleteChat chatId (Inr ()) (w, s)))) = messages s)"
proof -
  have a: "chatId \<notin> id_C ` set (filter (\<lambda>c. id_C c \<noteq> chatId) (chats s))"
    by auto
  show ?thesis
    using a
    by (simp add: deleteChat_unfold deleteChat_answered_success
        currentChat_is_written_out [symmetric])
qed

text \<open>
  A \<open>fetchChat\<close> answered during the \<open>await\<close> changes \<open>currentChat\<close> between the
  call and the comparison. Deleting the chat that is current at the call then
  leaves the newly fetched chat and its messages in place; deleting a chat that
  is not current at the call, but has become current since, clears both.
\<close>

theorem deleteChat_overlapped:
  "currentChat (setMessages [message_of ''m1'' ''a'']
       (setCurrentChat (Some (chat_of ''a''))
         (setChats [chat_of ''a'', chat_of ''b''] initialChatState))) = Some (chat_of ''a'')
   \<and> id_C (chat_of ''a'') = ''a''
   \<and> snd (snd (deleteChat_overlapped_by_fetchChat ''a'' (Inr ())
        ''b'' (Inr (transcript_of ''b'' [message_of ''m2'' ''b'']))
        (initialWorld,
         setMessages [message_of ''m1'' ''a'']
           (setCurrentChat (Some (chat_of ''a''))
             (setChats [chat_of ''a'', chat_of ''b''] initialChatState))))) =
       \<lparr>chats = [chat_of ''b''], currentChat = Some (chat_of ''b''),
        messages = [message_of ''m2'' ''b''], isLoading_C = False, error_C = None\<rparr>
   \<and> currentChat (setMessages [message_of ''m2'' ''b'']
       (setCurrentChat (Some (chat_of ''b''))
         (setChats [chat_of ''a'', chat_of ''b''] initialChatState))) = Some (chat_of ''b'')
   \<and> id_C (chat_of ''b'') \<noteq> ''a''
   \<and> snd (snd (deleteChat_overlapped_by_fetchChat ''a'' (Inr ())
        ''a'' (Inr (transcript_of ''a'' [message_of ''m1'' ''a'']))
        (initialWorld,
         setMessages [message_of ''m2'' ''b'']
           (setCurrentChat (Some (chat_of ''b''))
             (setChats [chat_of ''a'', chat_of ''b''] initialChatState))))) =
       \<lparr>chats = [chat_of ''b''], currentChat = None, messages = [],
        isLoading_C = False, error_C = None\<rparr>"
  by (simp add: deleteChat_overlapped_by_fetchChat_def deleteChat_called_def resume_def
      deleteChat_answered_success api_deleteChat_send_def client_send_def Let_def
      fetchChat_def getChat_def client_def client_receive_def fetchChat_called_def
      fetchChat_resolved_def setMessages_def setCurrentChat_def setChats_def
      initialChatState_def chat_of_def transcript_of_def currentChat_is_def Chat.truncate_def)

lemma sendMessage_called_chat:
  "currentChat s = Some chat \<Longrightarrow>
   sendMessage_called query documentIds uuid now (w, s) =
     (Awaiting (chat,
        \<lparr>method_X = POST, url_X = ''/api/chats/'' @ id_C chat @ ''/messages'',
          authorization_X = request_interceptor w,
          body_X = JsonQuery \<lparr>query_Q = query, chat_id_Q = None,
                     document_ids_Q = documentIds, top_k_Q = Some 5\<rparr>\<rparr>),
      w\<lparr>sent := sent w @
          [\<lparr>method_X = POST, url_X = ''/api/chats/'' @ id_C chat @ ''/messages'',
            authorization_X = request_interceptor w,
            body_X = JsonQuery \<lparr>query_Q = query, chat_id_Q = None,
                       document_ids_Q = documentIds, top_k_Q = Some 5\<rparr>\<rparr>]\<rparr>,
      s\<lparr>messages := messages s @ [userMessage chat query uuid now],
        isLoading_C := True, error_C := None\<rparr>)"
  by (simp add: sendMessage_called_def api_sendMessage_send_def client_send_def Let_def
      addMessage_def)

lemma sendMessage_answered_failure:
  "sendMessage_answered chat later req (Inl e) (w, s) =
     (Inl e,
      response_interceptor e
        (w\<lparr>exchanges := exchanges w @ [\<lparr>request_X = req, ok_X = False\<rparr>]\<rparr>),
      s\<lparr>error_C := Some (case e of
                            AxiosError r \<Rightarrow>
                              js_or (response_detail r) (JStr ''An error occurred'')
                          | JsError m \<Rightarrow> JStr ''An unexpected error occurred''),
        isLoading_C := False\<rparr>)"
  by (simp add: sendMessage_answered_def client_receive_def Let_def)

lemma sendMessage_answered_success:
  "sendMessage_answered chat later req (Inr response) (w, s) =
     (Inr (), w\<lparr>exchanges := exchanges w @ [\<lparr>request_X = req, ok_X = True\<rparr>]\<rparr>,
      s\<lparr>messages := messages s @ [assistantMessage chat response later],
        isLoading_C := False\<rparr>)"
  by (simp add: sendMessage_answered_def client_receive_def Let_def addMessage_def)

text \<open>
  C5. \<open>sendMessage\<close> with no current chat ends before any \<open>await\<close>: the promise it
  returns is rejected with the error \<open>No active chat\<close>, and nothing has changed:
  the store is the same (no message added, \<open>error\<close> untouched) and so is the
  world (no request has left). The caller's \<open>await\<close> gets that error.
\<close>

theorem sendMessage_no_chat:
  "currentChat s = None \<Longrightarrow>
   sendMessage_called query documentIds uuid now (w, s) =
     (Settled (Inl (JsError ''No active chat'')), w, s)
   \<and> sendMessage query documentIds uuid now later answer (w, s) =
       (Inl (JsError ''No active chat''), w, s)"
  by (simp add: sendMessage_def sendMessage_called_def resume_def)

theorem sendMessage_no_chat_witness:
  "currentChat initialChatState = None
   \<and> sendMessage_called ''What is X?'' None ''u1'' ''t1'' (initialWorld, initialChatState) =
       (Settled (Inl (JsError ''No active chat'')), initialWorld, initialChatState)
   \<and> sendMessage ''What is X?'' None ''u1'' ''t1'' ''t2'' (Inl (AxiosError None))
       (initialWorld, initialChatState) =
     (Inl (JsError ''No active chat''), initialWorld, initialChatState)"
  using sendMessage_no_chat [where s = initialChatState and query = "''What is X?''"
      and documentIds = None and uuid = "''u1''" and now = "''t1''" and later = "''t2''"
      and w = initialWorld and answer = "Inl (AxiosError None)"]
  by (simp add: initialChatState_def)

text \<open>
  The error is not thrown to the caller. \<open>sendMessage\<close> is \<open>async\<close>: the call
  returns a promise, which is rejected.
\<close>

theorem sendMessage_not_raised:
  "currentChat initialChatState = None
   \<and> fst (sendMessage_called ''What is X?'' None ''u1'' ''t1'' (initialWorld, initialChatState))
       = Settled (Inl (JsError ''No active chat''))
   \<and> fst (sendMessage_called ''What is X?'' None ''u1'' ''t1'' (initialWorld, initialChatState))
       \<noteq> Raised (JsError ''No active chat'')"
  by (simp add: sendMessage_called_def initialChatState_def)

text \<open>
  C2. \<open>sendMessage\<close> with a current chat appends the user's message (the
  generated id, role user, the query as content) before the request leaves. When
  the answer arrives the continuation works on the \<open>messages\<close> the store holds
  then, and never removes one: on failure it leaves them as they are, puts the
  normalised message in \<open>error\<close> and rejects with the same error; on success it
  appends the assistant's message and resolves. So for a call that nothing
  overlaps the user's message is among \<open>messages\<close> when the call completes,
  last on failure and followed by the assistant's message on success.
\<close>

theorem sendMessage_keeps_user_message:
  "currentChat s = Some chat \<Longrightarrow>
   (\<exists>req w1. sendMessage_called query documentIds uuid now (w, s) =
      (Awaiting (chat, req), w1,
       s\<lparr>messages := messages s @ [userMessage chat query uuid now],
         isLoading_C := True, error_C := None\<rparr>))
   \<and> id_M (userMessage chat query uuid now) = uuid
   \<and> role_M (userMessage chat query uuid now) = RoleUser
   \<and> content_M (userMessage chat query uuid now) = query
   \<and> (case answer of
        Inl e \<Rightarrow>
          fst (sendMessage_answered chat later req' answer (w', s')) = Inl e
          \<and> (case handleError (Caught e) of
                Inr m \<Rightarrow>
                  error_C (snd (snd (sendMessage_answered chat later req' answer (w', s'))))
                    = Some m
              | Inl e' \<Rightarrow> False)
          \<and> messages (snd (snd (sendMessage_answered chat later req' answer (w', s'))))
              = messages s'
      | Inr response \<Rightarrow>
          fst (sendMessage_answered chat later req' answer (w', s')) = Inr ()
          \<and> messages (snd (snd (sendMessage_answered chat later req' answer (w', s'))))
              = messages s' @ [assistantMessage chat response later])
   \<and> userMessage chat query uuid now
       \<in> set (messages (snd (snd (sendMessage query documentIds uuid now later answer (w, s)))))
   \<and> (case answer of
        Inl e \<Rightarrow>
          fst (sendMessage query documentIds uuid now later answer (w, s)) = Inl e
          \<and> (case handleError (Caught e) of
                Inr m \<Rightarrow>
                  error_C (snd (snd (sendMessage query documentIds uuid now later answer (w, s))))
                    = Some m
              | Inl e' \<Rightarrow> False)
          \<and> messages (snd (snd (sendMessage query documentIds uuid now later answer (w, s))))
              = messages s @ [userMessage chat query uuid now]
      | Inr response \<Rightarrow>
          fst (sendMessage query documentIds uuid now later answer (w, s)) = Inr ()
          \<and> messages (snd (snd (sendMessage query documentIds uuid now later answer (w, s))))
              = messages s @ [userMessage chat query uuid now,
                              assistantMessage chat response later])"
proof -
  assume c: "currentChat s = Some chat"
  have a: "\<exists>req w1. sendMessage_called query documentIds uuid now (w, s) =
      (Awaiting (chat, req), w1,
       s\<lparr>messages := messages s @ [userMessage chat query uuid now],
         isLoading_C := True, error_C := None\<rparr>)"
    using c by (simp add: sendMessage_called_chat)
  have b: "id_M (userMessage chat query uuid now) = uuid
     \<and> role_M (userMessage chat query uuid now) = RoleUser
     \<and> content_M (userMessage chat query uuid now) = query"
    by (simp add: userMessage_def)
  have d: "(case answer of
        Inl e \<Rightarrow>
          fst (sendMessage_answered chat later req' answer (w', s')) = Inl e
          \<and> (case handleError (Caught e) of
                Inr m \<Rightarrow>
                  error_C (snd (snd (sendMessage_answered chat later req' answer (w', s'))))
                    = Some m
              | Inl e' \<Rightarrow> False)
          \<and> messages (snd (snd (sendMessage_answered chat later req' answer (w', s'))))
              = messages s'
      | Inr response \<Rightarrow>
          fst (sendMessage_answered chat later req' answer (w', s')) = Inr ()
          \<and> messages (snd (snd (sendMessage_answered chat later req' answer (w', s'))))
              = messages s' @ [assistantMessage chat response later])"
    by (cases answer) (simp_all add: sendMessage_answered_failure sendMessage_answered_success)
  have e: "userMessage chat query uuid now
       \<in> set (messages (snd (snd (sendMessage query documentIds uuid now later answer (w, s)))))"
    using c
    by (cases answer)
       (simp_all add: sendMessage_def resume_def sendMessage_called_chat
          sendMessage_answered_failure sendMessage_answered_success)
  have f: "(case answer of
        Inl e \<Rightarrow>
          fst (sendMessage query documentIds uuid now later answer (w, s)) = Inl e
          \<and> (case handleError (Caught e) of
                Inr m \<Rightarrow>
                  error_C (snd (snd (sendMessage query documentIds uuid now later answer (w, s))))
                    = Some m
              | Inl e' \<Rightarrow> False)
          \<and> messages (snd (snd (sendMessage query documentIds uuid now later answer (w, s))))
              = messages s @ [userMessage chat query uuid now]
      | Inr response \<Rightarrow>
          fst (sendMessage query documentIds uuid now later answer (w, s)) = Inr ()
          \<and> messages (snd (snd (sendMessage query documentIds uuid now later answer (w, s))))
              = messages s @ [userMessage chat query uuid now,
                              assistantMessage chat response later])"
    using c
    by (cases answer)
       (simp_all add: sendMessage_def resume_def sendMessage_called_chat
          sendMessage_answered_failure sendMessage_answered_success)
  from a b d e f show ?thesis by blast
qed

theorem sendMessage_keeps_user_message_witness:
  "currentChat (setCurrentChat (Some (chat_of ''a'')) initialChatState) = Some (chat_of ''a'')
   \<and> fst (sendMessage ''What is X?'' None ''m1'' ''t1'' ''t2'' (Inl (AxiosError None))
       (initialWorld, setCurrentChat (Some (chat_of ''a'')) initialChatState))
       = Inl (AxiosError None)
   \<and> messages (snd (snd (sendMessage ''What is X?'' None ''m1'' ''t1'' ''t2''
       (Inl (AxiosError None))
       (initialWorld, setCurrentChat (Some (chat_of ''a'')) initialChatState)))) =
     [\<lparr>id_M = ''m1'', chat_id_M = ''a'', role_M = RoleUser, content_M = ''What is X?'',
       metadata_M = None, created_at_M = ''t1''\<rparr>]
   \<and> error_C (snd (snd (sendMessage ''What is X?'' None ''m1'' ''t1'' ''t2''
       (Inl (AxiosError None))
       (initialWorld, setCurrentChat (Some (chat_of ''a'')) initialChatState))))
       = Some (JStr ''An error occurred'')"
  using sendMessage_keeps_user_message
    [where s = "setCurrentChat (Some (chat_of ''a'')) initialChatState"
       and chat = "chat_of ''a''" and query = "''What is X?''" and documentIds = None
       and uuid = "''m1''" and now = "''t1''" and later = "''t2''" and w = initialWorld
       and answer = "Inl (AxiosError None)"]
  by (simp add: setCurrentChat_def initialChatState_def userMessage_def chat_of_def
      js_or_def response_detail_def split: option.splits)

text \<open>
  A \<open>fetchChat\<close> answered during the \<open>await\<close> replaces \<open>messages\<close>; the
  continuation of \<open>sendMessage\<close> does not put the user's message back, whether
  its own answer is a failure or a success.
\<close>

theorem sendMessage_overlapped:
  "currentChat (setCurrentChat (Some (chat_of ''a'')) initialChatState) = Some (chat_of ''a'')
   \<and> messages (snd (snd (sendMessage_overlapped_by_fetchChat ''What is X?'' None ''m1'' ''t1''
        ''t2'' (Inl (AxiosError None))
        ''b'' (Inr (transcript_of ''b'' [message_of ''srv1'' ''b'']))
        (initialWorld, setCurrentChat (Some (chat_of ''a'')) initialChatState))))
       = [message_of ''srv1'' ''b'']
   \<and> userMessage (chat_of ''a'') ''What is X?'' ''m1'' ''t1''
       \<notin> set (messages (snd (snd (sendMessage_overlapped_by_fetchChat ''What is X?'' None
            ''m1'' ''t1'' ''t2'' (Inl (AxiosError None))
            ''b'' (Inr (transcript_of ''b'' [message_of ''srv1'' ''b'']))
            (initialWorld, setCurrentChat (Some (chat_of ''a'')) initialChatState)))))
   \<and> messages (snd (snd (sendMessage_overlapped_by_fetchChat ''What is X?'' None ''m1'' ''t1''
        ''t2'' (Inr \<lparr>answer_R = ''X is Y'', sources_R = [], message_id_R = ''m2'',
                      processing_time_R = 1\<rparr>)
        ''b'' (Inr (transcript_of ''b'' [message_of ''srv1'' ''b'']))
        (initialWorld, setCurrentChat (Some (chat_of ''a'')) initialChatState))))
       = [message_of ''srv1'' ''b'',
          assistantMessage (chat_of ''a'')
            \<lparr>answer_R = ''X is Y'', sources_R = [], message_id_R = ''m2'',
              processing_time_R = 1\<rparr> ''t2'']
   \<and> userMessage (chat_of ''a'') ''What is X?'' ''m1'' ''t1''
       \<notin> set (messages (snd (snd (sendMessage_overlapped_by_fetchChat ''What is X?'' None
            ''m1'' ''t1'' ''t2'' (Inr \<lparr>answer_R = ''X is Y'', sources_R = [],
                                       message_id_R = ''m2'', processing_time_R = 1\<rparr>)
            ''b'' (Inr (transcript_of ''b'' [message_of ''srv1'' ''b'']))
            (initialWorld, setCurrentChat (Some (chat_of ''a'')) initialChatState)))))"
  by (simp add: sendMessage_overlapped_by_fetchChat_def resume_def sendMessage_called_chat
      sendMessage_answered_failure sendMessage_answered_success
      fetchChat_def getChat_def client_def client_send_def client_receive_def Let_def
      fetchChat_called_def fetchChat_resolved_def setCurrentChat_def initialChatState_def
      transcript_of_def message_of_def userMessage_def assistantMessage_def chat_of_def)

section \<open>The document selection\<close>

lemma toggle_member:
  "x \<in> set (selectedDocuments (toggleDocumentSelection y s)) \<longleftrightarrow>
     (if x = y then x \<notin> set (selectedDocuments s) else x \<in> set (selectedDocuments s))"
  by (simp add: toggleDocumentSelection_def)

lemma toggles_member:
  "x \<in> set (selectedDocuments (toggles ids s)) \<longleftrightarrow>
     ((x \<in> set (selectedDocuments s)) \<noteq> odd (count_list ids x))"
  by (induction ids arbitrary: s) (auto simp: toggle_member)

lemma toggle_distinct:
  "distinct (selectedDocuments s) \<Longrightarrow> distinct (selectedDocuments (toggleDocumentSelection x s))"
  by (simp add: toggleDocumentSelection_def)

lemma deleteDocument_selected:
  "selectedDocuments (snd (snd (deleteDocument x answer (w, s)))) =
     (case answer of
        Inr _ \<Rightarrow> filter (\<lambda>i. i \<noteq> x) (selectedDocuments s)
      | Inl _ \<Rightarrow> selectedDocuments s)"
  by (simp add: deleteDocument_def api_deleteDocument_def client_def client_send_def
      client_receive_def Let_def split: sum.splits)

lemma fetchDocuments_selected:
  "selectedDocuments (snd (snd (fetchDocuments c answer (w, s)))) = selectedDocuments s"
  by (simp add: fetchDocuments_def listDocuments_def client_def client_send_def
      client_receive_def Let_def split: sum.splits)

lemma document_step_distinct:
  "distinct (selectedDocuments (snd ws)) \<Longrightarrow>
   distinct (selectedDocuments (snd (document_step c ws)))"
  by (cases c; cases ws)
     (simp_all add: toggle_distinct deleteDocument_selected fetchDocuments_selected
        split: sum.splits)

lemma document_calls_distinct:
  "distinct (selectedDocuments (snd ws)) \<Longrightarrow>
   distinct (selectedDocuments (snd (document_calls cs ws)))"
  by (induction cs arbitrary: ws) (simp_all add: document_step_distinct)

text \<open>
  C4. After any run of \<open>toggleDocumentSelection\<close> calls on the Document store as
  created, an id is selected exactly when it was toggled an odd number of times;
  from any other state each toggle of the id flips its membership.
\<close>

theorem toggle_parity:
  "(x \<in> set (selectedDocuments (toggles ids initialDocumentState)) \<longleftrightarrow> odd (count_list ids x))
   \<and> (x \<in> set (selectedDocuments (toggles ids s)) \<longleftrightarrow>
        ((x \<in> set (selectedDocuments s)) \<noteq> odd (count_list ids x)))"
  by (simp add: toggles_member initialDocumentState_def)

text \<open>
  C10. From the Document store as created, after any run of
  \<open>toggleDocumentSelection\<close>, \<open>deleteDocument\<close> and \<open>fetchDocuments\<close> calls, whatever
  the server answers, no id occurs twice in \<open>selectedDocuments\<close>. A deletion
  only filters the selection (and leaves it alone when the server refuses), and
  a fetch leaves it alone.
\<close>

theorem selection_distinct:
  "distinct (selectedDocuments (snd (document_calls cs (w, initialDocumentState))))
   \<and> selectedDocuments (snd (snd (deleteDocument x answer (w, s)))) =
       (case answer of
          Inr _ \<Rightarrow> filter (\<lambda>i. i \<noteq> x) (selectedDocuments s)
        | Inl _ \<Rightarrow> selectedDocuments s)
   \<and> selectedDocuments (snd (snd (fetchDocuments c answer' (w, s)))) = selectedDocuments s"
proof -
  have "distinct (selectedDocuments (snd (w, initialDocumentState)))"
    by (simp add: initialDocumentState_def)
  then have "distinct (selectedDocuments (snd (document_calls cs (w, initialDocumentState))))"
    by (rule document_calls_distinct)
  then show ?thesis
    by (simp add: deleteDocument_selected fetchDocuments_selected)
qed

end
